theory Spec2Isabelle
  imports Complex_Main "HOL-Library.Multiset" "HOL-Library.Sublist"
    "HOL-Library.Char_ord" "HOL-Library.List_Lexorder"
begin

section \<open>The talent matching dashboard (app.py)\<close>

text \<open>
  The dashboard is one Python script. Its numbers are Python floats, which are modelled here
  with their rounding: every arithmetic result is rounded to the nearest double.
\<close>

subsection \<open>Exceptions and messages\<close>

text \<open>
  The exceptions the script can meet: Python's own, and \<open>LibraryError\<close> for one raised
  inside a library call (HTTP, JSON decoding, the database client) with its message.
  The last four are the error kinds of the specification; the script raises none of them.
\<close>

datatype error =
    ZeroDivisionError
  | KeyError
  | IndexError
  | TypeError
  | AttributeError
  | LibraryError string
  | InvalidScoreError
  | EmptyAggregationError
  | NoBenchmarksFoundError
  | SourceUnavailableError

text \<open>
  What \<^verbatim>\<open>st.error\<close>, \<^verbatim>\<open>st.warning\<close> and \<^verbatim>\<open>st.info\<close> put on the page: the
  fixed text, and the exception whose \<^verbatim>\<open>str(e)\<close> the f-string appends, if any.
  The pictographs that open some of the texts are left out.
\<close>

datatype level = StError | StWarning | StInfo

datatype msg = Msg level string "error option"

subsection \<open>Floating point\<close>

text \<open>
  Rounding to the nearest integer, a tie going to the even one: Python's \<^verbatim>\<open>round(x)\<close>, and
  the rounding of a mantissa.
\<close>

definition round_half_even :: "rat \<Rightarrow> int" where
  "round_half_even x =
     (let f = \<lfloor>x\<rfloor>; d = x - of_int f in
      if d < 1 / 2 then f
      else if 1 / 2 < d then f + 1
      else if even f then f else f + 1)"

text \<open>The largest power of two that is at most \<open>x\<close>, for a positive \<open>x\<close>.\<close>

function binade :: "rat \<Rightarrow> rat" where
  "binade x =
     (if 2 \<le> x then 2 * binade (x / 2)
      else if 0 < x \<and> x < 1 then binade (2 * x) / 2
      else 1)"
  by pat_completeness auto
termination
proof (relation "measure (\<lambda>x. if 1 \<le> x then nat \<lfloor>x\<rfloor> else nat \<lfloor>1 / x\<rfloor> + 1)")
  show "wf (measure (\<lambda>x::rat. if 1 \<le> x then nat \<lfloor>x\<rfloor> else nat \<lfloor>1 / x\<rfloor> + 1))"
    by simp
next
  fix x :: rat
  assume "2 \<le> x"
  then have "\<lfloor>x / 2\<rfloor> < \<lfloor>x\<rfloor>"
    by linarith
  moreover have "0 < \<lfloor>x\<rfloor>"
    using \<open>2 \<le> x\<close> by linarith
  ultimately show "(x / 2, x) \<in> measure (\<lambda>x. if 1 \<le> x then nat \<lfloor>x\<rfloor> else nat \<lfloor>1 / x\<rfloor> + 1)"
    using \<open>2 \<le> x\<close> by auto
next
  fix x :: rat
  assume "\<not> 2 \<le> x" and "0 < x \<and> x < 1"
  then have x: "0 < x" "x < 1" by simp_all
  then have one: "1 < 1 / x" by simp
  show "(2 * x, x) \<in> measure (\<lambda>x. if 1 \<le> x then nat \<lfloor>x\<rfloor> else nat \<lfloor>1 / x\<rfloor> + 1)"
  proof (cases "1 \<le> 2 * x")
    case True
    then have "\<lfloor>2 * x\<rfloor> = 1" using x by linarith
    moreover have "1 \<le> \<lfloor>1 / x\<rfloor>" using one by linarith
    ultimately show ?thesis using True x by auto
  next
    case False
    then have "2 < 1 / x" using x by (simp add: field_simps)
    moreover have "1 / (2 * x) = (1 / x) / 2" by simp
    ultimately have "\<lfloor>1 / (2 * x)\<rfloor> < \<lfloor>1 / x\<rfloor>" by linarith
    moreover have "0 < \<lfloor>1 / x\<rfloor>" using one by linarith
    ultimately show ?thesis using False x by auto
  qed
qed

declare binade.simps [simp del]

text \<open>
  The double nearest to \<open>x\<close>: a mantissa of 53 bits, a tie going to the even mantissa. The
  exponent is not bounded here, so a magnitude beyond the largest double (about \<open>1.8e308\<close>) or
  below the smallest normal one (about \<open>2.2e-308\<close>), where a real double overflows or loses
  bits, is outside the model.
\<close>

definition to_double :: "rat \<Rightarrow> rat" where
  "to_double x =
     (if x = 0 then 0
      else let ulp = binade \<bar>x\<bar> / 2 ^ 52 in of_int (round_half_even (x / ulp)) * ulp)"

text \<open>
  A Python float: the exact value of a finite double, or not-a-number, which is what pandas
  makes of a missing value in a numeric column. The infinities are left out. An \<^verbatim>\<open>int\<close>
  that meets a float in an operation is the float of the same value.
\<close>

datatype pyfloat = Num (num: rat) | NaN

text \<open>The float a decimal literal such as \<^verbatim>\<open>80.1\<close> stands for.\<close>

definition float_literal :: "rat \<Rightarrow> pyfloat" where
  "float_literal q = Num (to_double q)"

fun fadd :: "pyfloat \<Rightarrow> pyfloat \<Rightarrow> pyfloat" where
  "fadd (Num a) (Num b) = Num (to_double (a + b))"
| "fadd _ _ = NaN"

fun fsub :: "pyfloat \<Rightarrow> pyfloat \<Rightarrow> pyfloat" where
  "fsub (Num a) (Num b) = Num (to_double (a - b))"
| "fsub _ _ = NaN"

fun fmul :: "pyfloat \<Rightarrow> pyfloat \<Rightarrow> pyfloat" where
  "fmul (Num a) (Num b) = Num (to_double (a * b))"
| "fmul _ _ = NaN"

text \<open>Division raises on a zero divisor, whatever the dividend.\<close>

fun fdiv :: "pyfloat \<Rightarrow> pyfloat \<Rightarrow> error + pyfloat" where
  "fdiv x (Num b) =
     (if b = 0 then Inl ZeroDivisionError
      else case x of Num a \<Rightarrow> Inr (Num (to_double (a / b))) | NaN \<Rightarrow> Inr NaN)"
| "fdiv x NaN = Inr NaN"

fun fabs :: "pyfloat \<Rightarrow> pyfloat" where
  "fabs (Num a) = Num \<bar>a\<bar>"
| "fabs NaN = NaN"

text \<open>The comparisons \<^verbatim>\<open><=\<close>, \<^verbatim>\<open><\<close>, \<^verbatim>\<open>>=\<close> and \<^verbatim>\<open>==\<close>: false as soon as one side is not a number.\<close>

fun fle :: "pyfloat \<Rightarrow> pyfloat \<Rightarrow> bool" where
  "fle (Num a) (Num b) \<longleftrightarrow> a \<le> b"
| "fle _ _ \<longleftrightarrow> False"

fun flt :: "pyfloat \<Rightarrow> pyfloat \<Rightarrow> bool" where
  "flt (Num a) (Num b) \<longleftrightarrow> a < b"
| "flt _ _ \<longleftrightarrow> False"

definition fge :: "pyfloat \<Rightarrow> pyfloat \<Rightarrow> bool" where
  "fge a b \<longleftrightarrow> fle b a"

fun feq :: "pyfloat \<Rightarrow> pyfloat \<Rightarrow> bool" where
  "feq (Num a) (Num b) \<longleftrightarrow> a = b"
| "feq _ _ \<longleftrightarrow> False"

text \<open>\<^verbatim>\<open>min(a, b)\<close>: the first argument unless the second is smaller.\<close>

definition pymin :: "pyfloat \<Rightarrow> pyfloat \<Rightarrow> pyfloat" where
  "pymin a b = (if flt b a then b else a)"

text \<open>
  \<^verbatim>\<open>round(x, 1)\<close>: the exact value of the float is rounded to one decimal place, a tie
  going to the even digit, and the result is the double nearest to that decimal.
\<close>

fun py_round1 :: "pyfloat \<Rightarrow> pyfloat" where
  "py_round1 (Num x) = Num (to_double (of_int (round_half_even (x * 10)) / 10))"
| "py_round1 NaN = NaN"

text \<open>
  \<^verbatim>\<open>sum(xs)\<close> over a list of floats, starting from the integer 0. Up to CPython 3.11 the
  floats are added from left to right. From CPython 3.12 on the rounding errors of these
  additions are collected in a second float (Neumaier's compensated summation) and added at the
  end, if they are a number other than zero.
\<close>

definition plain_sum :: "pyfloat list \<Rightarrow> pyfloat" where
  "plain_sum xs = foldl fadd (Num 0) xs"

definition neumaier_step :: "pyfloat \<times> pyfloat \<Rightarrow> pyfloat \<Rightarrow> pyfloat \<times> pyfloat" where
  "neumaier_step acc x =
     (let total = fst acc; c = snd acc; t = fadd total x
      in (t, if fge (fabs total) (fabs x) then fadd c (fadd (fsub total t) x)
             else fadd c (fadd (fsub x t) total)))"

definition neumaier_sum :: "pyfloat list \<Rightarrow> pyfloat" where
  "neumaier_sum xs =
     (case xs of
        [] \<Rightarrow> Num 0
      | x # rest \<Rightarrow>
          (let acc = foldl neumaier_step (fadd (Num 0) x, Num 0) rest;
               total = fst acc; c = snd acc
           in if c \<noteq> Num 0 \<and> c \<noteq> NaN then fadd total c else total))"

subsection \<open>Strings\<close>

text \<open>
  A Python string is modelled as a list of 8-bit characters. \<^verbatim>\<open>str.strip()\<close> removes
  the characters for which \<^verbatim>\<open>str.isspace\<close> holds from both ends; below code point 256
  these are the twelve listed here.
\<close>

definition isspace :: "char \<Rightarrow> bool" where
  "isspace c \<longleftrightarrow> c \<in> set [CHR 0x09, CHR 0x0A, CHR 0x0B, CHR 0x0C, CHR 0x0D,
     CHR 0x1C, CHR 0x1D, CHR 0x1E, CHR 0x1F, CHR 0x20, CHR 0x85, CHR 0xA0]"

definition lstrip :: "string \<Rightarrow> string" where
  "lstrip s = dropWhile isspace s"

definition rstrip :: "string \<Rightarrow> string" where
  "rstrip s = rev (dropWhile isspace (rev s))"

definition strip :: "string \<Rightarrow> string" where
  "strip s = rstrip (lstrip s)"

text \<open>\<^verbatim>\<open>s.split(',')\<close>: the pieces between commas; the empty string gives one empty piece.\<close>

fun split_comma :: "string \<Rightarrow> string list" where
  "split_comma [] = [[]]"
| "split_comma (c # cs) =
     (if c = CHR '','' then [] # split_comma cs
      else (case split_comma cs of
              [] \<Rightarrow> [[c]]
            | piece # pieces \<Rightarrow> (c # piece) # pieces))"

text \<open>\<^verbatim>\<open>', '.join(ids)\<close>, the way the form's placeholder writes a list of IDs.\<close>

fun join_comma_space :: "string list \<Rightarrow> string" where
  "join_comma_space [] = []"
| "join_comma_space [x] = x"
| "join_comma_space (x # y # ys) = x @ '', '' @ join_comma_space (y # ys)"

text \<open>\<^verbatim>\<open>s.replace(old, '')\<close> for a non-empty \<^verbatim>\<open>old\<close>: every occurrence, left to right.\<close>

function remove_all :: "string \<Rightarrow> string \<Rightarrow> string" where
  "remove_all old s =
     (if s = [] then []
      else if old \<noteq> [] \<and> prefix old s then remove_all old (drop (length old) s)
      else hd s # remove_all old (tl s))"
  by pat_completeness auto
termination
  by (relation "measure (\<lambda>(old, s). length s)") auto

declare remove_all.simps [simp del]

text \<open>The decimal digits of a natural number, as \<^verbatim>\<open>f'{n}'\<close> prints them.\<close>

fun str_nat :: "nat \<Rightarrow> string" where
  "str_nat n =
     (if n < 10 then [char_of (48 + n)]
      else str_nat (n div 10) @ [char_of (48 + n mod 10)])"

declare str_nat.simps [simp del]

subsection \<open>JSON values and the job profile\<close>

datatype json =
    JNull
  | JBool bool
  | JNum rat
  | JStr string
  | JArr "json list"
  | JObj "(string \<times> json) list"

text \<open>\<^verbatim>\<open>v[key]\<close> with a string key: only a dict has one.\<close>

fun subscript_key :: "json \<Rightarrow> string \<Rightarrow> error + json" where
  "subscript_key (JObj kvs) k =
     (case map_of kvs k of None \<Rightarrow> Inl KeyError | Some v \<Rightarrow> Inr v)"
| "subscript_key _ k = Inl TypeError"

text \<open>
  \<^verbatim>\<open>v[0]\<close>: the first element of a list, the first character of a string; a dict decoded
  from JSON has string keys only, so \<open>0\<close> is never one of them.
\<close>

fun subscript_zero :: "json \<Rightarrow> error + json" where
  "subscript_zero (JArr []) = Inl IndexError"
| "subscript_zero (JArr (v # vs)) = Inr v"
| "subscript_zero (JStr []) = Inl IndexError"
| "subscript_zero (JStr (c # cs)) = Inr (JStr [c])"
| "subscript_zero (JObj kvs) = Inl KeyError"
| "subscript_zero _ = Inl TypeError"

subsection \<open>Candidate rows and the outside world\<close>

text \<open>A row of the candidate frame, and a row once the benchmark flag is added.\<close>

record candidate =
  employee_id :: string
  name :: string
  position :: string
  grade :: string
  directorate :: string
  final_match_rate :: pyfloat
  tgv_scores :: "(string \<times> int) list"
  tv_scores :: "(string \<times> int) list"

record ranked = candidate +
  is_benchmark :: bool

text \<open>
  The world outside the script, as one run of it sees it: whether the database client library
  can be imported and the client created, the clock, the outcome of the insert, the
  language-model API's reply to the prompt built from the three role inputs (an exception, or
  the decoded response body),
  \<^verbatim>\<open>json.loads\<close>, the outcome of the matching query (an exception, or the rows of
  \<^verbatim>\<open>result.data\<close>), the draws of the \<^verbatim>\<open>random\<close> module, each a float in \<open>[0, 1)\<close>,
  and whether the interpreter's \<^verbatim>\<open>sum\<close> compensates for rounding (CPython 3.12 and later).
\<close>

record world =
  supabase_import :: "error option"
  create_client :: "error option"
  now_stamp :: string
  table_insert :: "error option"
  api_reply :: "string \<Rightarrow> string \<Rightarrow> string \<Rightarrow> error + json"
  json_loads :: "string \<Rightarrow> error + json"
  rpc_reply :: "error + candidate list"
  random_draw :: "nat \<Rightarrow> rat"
  compensated_sum :: bool

text \<open>The body of the \<^verbatim>\<open>try\<close> block of \<^verbatim>\<open>generate_job_profile\<close>.\<close>

definition request_profile :: "world \<Rightarrow> string \<Rightarrow> string \<Rightarrow> string \<Rightarrow> error + json" where
  "request_profile w role_name job_level role_purpose =
     (case api_reply w role_name job_level role_purpose of
        Inl e \<Rightarrow> Inl e
      | Inr result \<Rightarrow>
     (case subscript_key result ''content'' of
        Inl e \<Rightarrow> Inl e
      | Inr content \<Rightarrow>
     (case subscript_zero content of
        Inl e \<Rightarrow> Inl e
      | Inr block \<Rightarrow>
     (case subscript_key block ''text'' of
        Inl e \<Rightarrow> Inl e
      | Inr (JStr text) \<Rightarrow>
          json_loads w (strip (remove_all ''```'' (remove_all ''```json'' text)))
      | Inr _ \<Rightarrow> Inl AttributeError))))"

definition fallback_profile :: "string \<Rightarrow> string \<Rightarrow> string \<Rightarrow> json" where
  "fallback_profile role_name job_level role_purpose = JObj
     [(''job_requirements'', JStr (role_name @
         '' requires strong technical skills, domain expertise, and proven ability to deliver results at ''
         @ job_level @
         '' level. Excellent communication, analytical thinking, and stakeholder management capabilities are essential.'')),
      (''job_description'', JStr (''As a '' @ role_name @ '', you will '' @ role_purpose @ ''. This ''
         @ job_level @
         '' position requires balancing technical depth with business acumen, driving data-informed decisions, and collaborating effectively across teams.'')),
      (''key_competencies'', JArr
         [JStr ''Technical Expertise'',
          JStr ''Analytical Thinking'',
          JStr ''Communication Skills'',
          JStr ''Problem Solving'',
          JStr ''Stakeholder Management''])]"

text \<open>
  \<^verbatim>\<open>generate_job_profile\<close>: what it returns or raises, and the messages it shows.
\<close>

definition generate_job_profile ::
  "world \<Rightarrow> string \<Rightarrow> string \<Rightarrow> string \<Rightarrow> (error + json) \<times> msg list" where
  "generate_job_profile w role_name job_level role_purpose =
     (case request_profile w role_name job_level role_purpose of
        Inr profile \<Rightarrow> (Inr profile, [])
      | Inl e \<Rightarrow>
          (Inr (fallback_profile role_name job_level role_purpose),
           [Msg StWarning ''Using fallback job profile. API error: '' (Some e)]))"

subsection \<open>Sample data\<close>

text \<open>
  \<^verbatim>\<open>random.uniform(a, b)\<close>, which is \<^verbatim>\<open>a + (b - a) * random()\<close> in floats, and
  \<^verbatim>\<open>random.choice(seq)\<close>, each from one draw \<open>u\<close> of the unit interval. The bounds
  are integers here, so their difference is exact.
\<close>

definition uniform :: "rat \<Rightarrow> rat \<Rightarrow> rat \<Rightarrow> rat" where
  "uniform a b u = to_double (a + to_double ((b - a) * u))"

definition choice :: "'a list \<Rightarrow> rat \<Rightarrow> 'a" where
  "choice seq u = seq ! (nat \<lfloor>u * of_nat (length seq)\<rfloor> mod length seq)"

text \<open>
  Row \<open>i\<close> of \<^verbatim>\<open>generate_sample_data\<close>. It takes thirteen draws, in the order in which
  Python evaluates the loop body: the base score, the position, grade and directorate, the five
  group scores and the four variable scores. A score is \<^verbatim>\<open>round\<close> of a float sum, an integer.
\<close>

definition score_near :: "rat \<Rightarrow> rat \<Rightarrow> int" where
  "score_near base_score u = round_half_even (to_double (base_score + uniform (- 5) 5 u))"


definition sample_row :: "(nat \<Rightarrow> rat) \<Rightarrow> nat \<Rightarrow> candidate" where
  "sample_row draw i =
     (let d = (\<lambda>j. draw (13 * i + j));
          base_score = uniform 70 95 (d 0)
      in \<lparr>employee_id = ''EMP'' @ str_nat (1000 + i),
          name = ''Employee '' @ str_nat (1000 + i),
          position = choice [''Data Analyst'', ''Business Analyst'', ''Data Scientist''] (d 1),
          grade = choice [''III'', ''IV'', ''V''] (d 2),
          directorate = choice [''Commercial'', ''Operations'', ''HR & Corporate Affairs''] (d 3),
          final_match_rate = py_round1 (Num base_score),
          tgv_scores =
            [(''Learning Agility'', score_near base_score (d 4)),
             (''Results Orientation'', score_near base_score (d 5)),
             (''Collaboration'', score_near base_score (d 6)),
             (''Innovation'', score_near base_score (d 7)),
             (''Integrity'', score_near base_score (d 8))],
          tv_scores =
            [(''Technical Skills'', score_near base_score (d 9)),
             (''Domain Knowledge'', score_near base_score (d 10)),
             (''Analytical Thinking'', score_near base_score (d 11)),
             (''Communication'', score_near base_score (d 12))]\<rparr>)"

definition generate_sample_data :: "(nat \<Rightarrow> rat) \<Rightarrow> candidate list" where
  "generate_sample_data draw = map (sample_row draw) [0..<15]"

subsection \<open>Database helpers\<close>

record analytics =
  avg_match :: pyfloat
  benchmark_avg :: pyfloat
  top_talent_count :: nat

record pipeline_results =
  vacancy_id :: "string option"
  job_profile :: json
  talent_df :: "ranked list"
  analytics :: analytics
  stored_benchmark_ids :: "string list"

record session_state =
  results :: "pipeline_results option"
  supabase_url :: string
  supabase_key :: string

text \<open>\<^verbatim>\<open>init_supabase_connection\<close>: whether a client came back, and the messages shown.\<close>

definition init_supabase_connection :: "world \<Rightarrow> session_state \<Rightarrow> bool \<times> msg list" where
  "init_supabase_connection w ss =
     (case supabase_import w of
        Some e \<Rightarrow> (False, [Msg StError ''Supabase connection error: '' (Some e)])
      | None \<Rightarrow>
          if supabase_url ss \<noteq> [] \<and> supabase_key ss \<noteq> [] then
            (case create_client w of
               Some e \<Rightarrow> (False, [Msg StError ''Supabase connection error: '' (Some e)])
             | None \<Rightarrow> (True, []))
          else (False, []))"

text \<open>\<^verbatim>\<open>insert_job_vacancy\<close>: the new vacancy id, or \<open>None\<close> when the insert raised.\<close>

definition insert_job_vacancy :: "world \<Rightarrow> string option \<times> msg list" where
  "insert_job_vacancy w =
     (case table_insert w of
        Some e \<Rightarrow> (None, [Msg StError ''Error inserting job vacancy: '' (Some e)])
      | None \<Rightarrow> (Some (''JV-'' @ now_stamp w), []))"

text \<open>
  \<^verbatim>\<open>execute_matching_query\<close>: the frame of the rows the query returned, \<open>None\<close> when it
  returned no row, the sample data when it raised.
\<close>

definition execute_matching_query :: "world \<Rightarrow> candidate list option \<times> msg list" where
  "execute_matching_query w =
     (case rpc_reply w of
        Inl e \<Rightarrow>
          (Some (generate_sample_data (random_draw w)),
           [Msg StError ''Query execution error: '' (Some e),
            Msg StInfo ''Generating sample data for demonstration purposes...'' None])
      | Inr data \<Rightarrow>
          if data \<noteq> [] then (Some data, [])
          else (None, [Msg StError ''No data returned from query'' None]))"

subsection \<open>The generate button\<close>

record form =
  role_name :: string
  job_level :: string
  role_purpose :: string
  benchmark_ids :: string

text \<open>Line 305: the IDs the run works with.\<close>

definition benchmark_list :: "string \<Rightarrow> string list" where
  "benchmark_list ids = take 3 (map strip (split_comma ids))"

text \<open>Line 328: the new column \<^verbatim>\<open>is_benchmark\<close>.\<close>

definition mark_benchmark :: "string list \<Rightarrow> candidate \<Rightarrow> ranked" where
  "mark_benchmark blist c =
     \<lparr>employee_id = employee_id c, name = name c, position = position c, grade = grade c,
      directorate = directorate c, final_match_rate = final_match_rate c,
      tgv_scores = tgv_scores c, tv_scores = tv_scores c,
      is_benchmark = (employee_id c \<in> set blist)\<rparr>"

text \<open>
  Line 329: \<^verbatim>\<open>sort_values('final_match_rate', ascending=False)\<close>. The rate is the only
  key; rows whose rate is not a number go last, in the order of the frame. Among rows of equal
  rate the order that pandas' default sort leaves depends on the library build; here they stay
  in the order of the frame, as they do in a frame of two rows.
\<close>

definition sort_values_desc :: "ranked list \<Rightarrow> ranked list" where
  "sort_values_desc df =
     sort_key (\<lambda>r. - num (final_match_rate r)) [r \<leftarrow> df. final_match_rate r \<noteq> NaN]
     @ [r \<leftarrow> df. final_match_rate r = NaN]"

definition rank_candidates :: "string list \<Rightarrow> candidate list \<Rightarrow> ranked list" where
  "rank_candidates blist df = sort_values_desc (map (mark_benchmark blist) df)"

text \<open>
  \<^verbatim>\<open>sum(rates) / len(rates)\<close>: the float sum, by the interpreter's summation, divided by
  the length.
\<close>

definition py_sum :: "world \<Rightarrow> pyfloat list \<Rightarrow> pyfloat" where
  "py_sum w xs = (if compensated_sum w then neumaier_sum xs else plain_sum xs)"

definition float_mean :: "world \<Rightarrow> pyfloat list \<Rightarrow> error + pyfloat" where
  "float_mean w rates = fdiv (py_sum w rates) (Num (of_nat (length rates)))"

text \<open>Lines 340 to 342: the three analytics.\<close>

definition compute_avg_match :: "world \<Rightarrow> pyfloat list \<Rightarrow> error + pyfloat" where
  "compute_avg_match w match_rates =
     (case float_mean w match_rates of
        Inl e \<Rightarrow> Inl e
      | Inr m \<Rightarrow> Inr (py_round1 m))"

definition compute_benchmark_avg :: "world \<Rightarrow> pyfloat list \<Rightarrow> error + pyfloat" where
  "compute_benchmark_avg w benchmark_rates =
     (if benchmark_rates \<noteq> [] then
        (case float_mean w benchmark_rates of
           Inl e \<Rightarrow> Inl e
         | Inr m \<Rightarrow> Inr (py_round1 m))
      else Inr (Num 0))"

definition compute_top_talent_count :: "pyfloat list \<Rightarrow> nat" where
  "compute_top_talent_count match_rates = length [r \<leftarrow> match_rates. fge r (Num 80)]"

text \<open>Lines 327 to 345: from the candidate frame to the stored results.\<close>

definition build_results ::
  "world \<Rightarrow> string option \<Rightarrow> json \<Rightarrow> string list \<Rightarrow> candidate list
     \<Rightarrow> error + pipeline_results" where
  "build_results w vid profile blist df =
     (let ranked_df = rank_candidates blist df;
          match_rates = map final_match_rate ranked_df;
          benchmark_rates = map final_match_rate (filter is_benchmark ranked_df)
      in case compute_avg_match w match_rates of
           Inl e \<Rightarrow> Inl e
         | Inr avg \<Rightarrow>
             (case compute_benchmark_avg w benchmark_rates of
                Inl e \<Rightarrow> Inl e
              | Inr bavg \<Rightarrow>
                  Inr \<lparr>vacancy_id = vid,
                       job_profile = profile,
                       talent_df = ranked_df,
                       analytics = \<lparr>avg_match = avg,
                                    benchmark_avg = bavg,
                                    top_talent_count = compute_top_talent_count match_rates\<rparr>,
                       stored_benchmark_ids = blist\<rparr>))"

text \<open>
  Lines 299 to 345, run when the button is pressed: the session state afterwards, or the
  exception that ends the run, and the messages shown.
\<close>

definition generate_clicked ::
  "world \<Rightarrow> form \<Rightarrow> session_state \<Rightarrow> (error + session_state) \<times> msg list" where
  "generate_clicked w f ss =
     (if role_name f = [] \<or> job_level f = [] \<or> role_purpose f = [] \<or> benchmark_ids f = [] then
        (Inr ss, [Msg StError ''Please fill in all required fields!'' None])
      else
        let blist = benchmark_list (benchmark_ids f);
            (supabase, m1) = init_supabase_connection w ss;
            (vid, m2) =
              (if supabase then insert_job_vacancy w
               else (Some (''JV-'' @ now_stamp w),
                     [Msg StWarning ''Database not configured. Using demo mode.'' None]));
            (profile, m3) = generate_job_profile w (role_name f) (job_level f) (role_purpose f);
            (frame, m4) =
              (if supabase \<and> vid \<noteq> None then execute_matching_query w
               else (Some (generate_sample_data (random_draw w)), []))
        in case profile of
             Inl e \<Rightarrow> (Inl e, m1 @ m2 @ m3)
           | Inr prof \<Rightarrow>
               (case frame of
                  None \<Rightarrow> (Inl TypeError, m1 @ m2 @ m3 @ m4)
                | Some df \<Rightarrow>
                    (case build_results w vid prof blist df of
                       Inl e \<Rightarrow> (Inl e, m1 @ m2 @ m3 @ m4)
                     | Inr r \<Rightarrow> (Inr (ss\<lparr>results := Some r\<rparr>), m1 @ m2 @ m3 @ m4))))"

subsection \<open>Match rate distribution (the display section)\<close>

text \<open>
  The five counts of \<^verbatim>\<open>distribution_data\<close>, in the order of the ranges
  90-100, 80-89, 70-79, 60-69 and below 60.
\<close>

definition distribution_counts :: "pyfloat list \<Rightarrow> nat list" where
  "distribution_counts match_rates =
     [length [r \<leftarrow> match_rates. fge r (Num 90)],
      length [r \<leftarrow> match_rates. fle (Num 80) r \<and> flt r (Num 90)],
      length [r \<leftarrow> match_rates. fle (Num 70) r \<and> flt r (Num 80)],
      length [r \<leftarrow> match_rates. fle (Num 60) r \<and> flt r (Num 70)],
      length [r \<leftarrow> match_rates. flt r (Num 60)]]"

subsection \<open>What two runs have in common\<close>

text \<open>
  The part of a run's outcome that the ranking makes up: the exception that ended the run, or
  the ranked frame, the analytics and the resolved benchmark list of the stored results.
\<close>

definition ranking_outcome ::
  "error + session_state \<Rightarrow> error + (ranked list \<times> analytics \<times> string list) option" where
  "ranking_outcome outcome =
     (case outcome of
        Inl e \<Rightarrow> Inl e
      | Inr ss \<Rightarrow>
          Inr (map_option (\<lambda>r. (talent_df r, analytics r, stored_benchmark_ids r)) (results ss)))"

text \<open>A run's outcome with the vacancy id of the stored results left out.\<close>

definition without_vacancy_id :: "error + session_state \<Rightarrow> error + session_state" where
  "without_vacancy_id outcome =
     map_sum id
       (\<lambda>ss. ss\<lparr>results := map_option (\<lambda>r. r\<lparr>vacancy_id := None\<rparr>) (results ss)\<rparr>)
       outcome"

subsection \<open>The order the specification asks for\<close>

text \<open>
  The specification's words for the ranked sequence: descending by final match rate, and of two
  neighbours with the same rate the one with the smaller employee id first. Strings compare as
  in Python, character by character.
\<close>

fun ordered_as_specified :: "ranked list \<Rightarrow> bool" where
  "ordered_as_specified (a # b # rest) \<longleftrightarrow>
     (flt (final_match_rate b) (final_match_rate a) \<or>
      (feq (final_match_rate a) (final_match_rate b) \<and> employee_id a \<le> employee_id b)) \<and>
     ordered_as_specified (b # rest)"
| "ordered_as_specified _ \<longleftrightarrow> True"

subsection \<open>The per-variable match rate\<close>

text \<open>
  Modelled from the spec: \<open>AggregateVariable\<close>, the per-variable match rate of the score
  aggregator (section 4.1), computed in floats as that section asks. The script has only its
  caller: \<^verbatim>\<open>execute_matching_query\<close> sends a query in which each rate is a database-side
  random placeholder, and the computation itself is not among the sources. The specification
  gives the rate when the baseline is positive and when the two scores are equal, and the
  failure for a score outside \<open>[0, 100]\<close>; it says nothing of a zero baseline with a
  different candidate score, which is the parameter \<open>zero_baseline\<close> here.
\<close>

definition valid_score :: "pyfloat \<Rightarrow> bool" where
  "valid_score s \<longleftrightarrow> fle (Num 0) s \<and> fle s (Num 100)"

definition AggregateVariable ::
  "(pyfloat \<Rightarrow> error + pyfloat) \<Rightarrow> pyfloat \<Rightarrow> pyfloat \<Rightarrow> error + pyfloat" where
  "AggregateVariable zero_baseline candidate_score baseline_score =
     (if \<not> valid_score candidate_score \<or> \<not> valid_score baseline_score then Inl InvalidScoreError
      else if feq candidate_score baseline_score then Inr (Num 100)
      else if flt (Num 0) baseline_score then
        (case fdiv (fabs (fsub candidate_score baseline_score)) baseline_score of
           Inl e \<Rightarrow> Inl e
         | Inr q \<Rightarrow> Inr (fsub (Num 100) (pymin (Num 100) (fmul q (Num 100)))))
      else zero_baseline candidate_score)"

subsection \<open>Example inputs\<close>

text \<open>
  A world without network, in which every outside call raises; a world whose database answers
  the matching query with the given rows; the session once the database is configured; the
  form as the page's example fills it; and a candidate row.
\<close>

definition offline_world :: "(nat \<Rightarrow> rat) \<Rightarrow> world" where
  "offline_world draws =
     \<lparr>supabase_import = None,
      create_client = Some (LibraryError ''connection refused''),
      now_stamp = ''20250101120000'',
      table_insert = Some (LibraryError ''connection refused''),
      api_reply = (\<lambda>r l p. Inl (LibraryError ''connection refused'')),
      json_loads = (\<lambda>s. Inl (LibraryError ''Expecting value'')),
      rpc_reply = Inl (LibraryError ''connection refused''),
      random_draw = draws,
      compensated_sum = False\<rparr>"

definition database_world :: "candidate list \<Rightarrow> world" where
  "database_world rows =
     \<lparr>supabase_import = None,
      create_client = None,
      now_stamp = ''20250101120000'',
      table_insert = None,
      api_reply = (\<lambda>r l p. Inl (LibraryError ''connection refused'')),
      json_loads = (\<lambda>s. Inl (LibraryError ''Expecting value'')),
      rpc_reply = Inr rows,
      random_draw = (\<lambda>n. 0),
      compensated_sum = False\<rparr>"

definition configured_session :: session_state where
  "configured_session =
     \<lparr>results = None, supabase_url = ''https://example.supabase.co'', supabase_key = ''anon''\<rparr>"

definition example_form :: form where
  "example_form =
     \<lparr>role_name = ''Data Analyst'', job_level = ''Middle'',
      role_purpose = ''You turn business questions into data-driven answers.'',
      benchmark_ids = ''312, 335, 175''\<rparr>"

definition example_row :: "string \<Rightarrow> pyfloat \<Rightarrow> candidate" where
  "example_row eid r =
     \<lparr>employee_id = eid, name = ''Employee '' @ eid, position = ''Data Analyst'',
      grade = ''IV'', directorate = ''Commercial'', final_match_rate = r,
      tgv_scores = [], tv_scores = []\<rparr>"

section \<open>Auxiliary facts\<close>

lemma round_half_even_error: "\<bar>of_int (round_half_even x) - x\<bar> \<le> 1 / 2"
proof -
  have "of_int \<lfloor>x\<rfloor> \<le> x" and "x < of_int \<lfloor>x\<rfloor> + 1"
    by linarith+
  then show ?thesis
    unfolding round_half_even_def Let_def by auto
qed

lemma binade_bounds: "0 < x \<Longrightarrow> 0 < binade x \<and> binade x \<le> x \<and> x < 2 * binade x"
proof (induction x rule: binade.induct)
  case (1 x)
  show ?case
  proof (cases "2 \<le> x")
    case True
    with 1 have "0 < binade (x / 2) \<and> binade (x / 2) \<le> x / 2 \<and> x / 2 < 2 * binade (x / 2)"
      by simp
    then show ?thesis
      using True by (subst (1 2 3) binade.simps) simp
  next
    case False
    show ?thesis
    proof (cases "x < 1")
      case True
      with 1 False have "0 < binade (2 * x) \<and> binade (2 * x) \<le> 2 * x \<and> 2 * x < 2 * binade (2 * x)"
        by simp
      then show ?thesis
        using True False 1(3) by (subst (1 2 3) binade.simps) simp
    next
      case ge: False
      then show ?thesis
        using False 1(3) by (subst (1 2 3) binade.simps) simp
    qed
  qed
qed

lemma to_double_error: "\<bar>to_double x - x\<bar> \<le> \<bar>x\<bar> / 2 ^ 53"
proof (cases "x = 0")
  case True
  then show ?thesis by (simp add: to_double_def)
next
  case False
  define ulp where "ulp = binade \<bar>x\<bar> / 2 ^ 52"
  have b: "0 < binade \<bar>x\<bar>" "binade \<bar>x\<bar> \<le> \<bar>x\<bar>"
    using binade_bounds [of "\<bar>x\<bar>"] False by simp_all
  then have ulp: "0 < ulp" by (simp add: ulp_def)
  have "\<bar>of_int (round_half_even (x / ulp)) - x / ulp\<bar> \<le> 1 / 2"
    by (rule round_half_even_error)
  then have "\<bar>of_int (round_half_even (x / ulp)) - x / ulp\<bar> * ulp \<le> 1 / 2 * ulp"
    using ulp by (simp add: mult_right_mono)
  moreover have "\<bar>of_int (round_half_even (x / ulp)) - x / ulp\<bar> * ulp
      = \<bar>of_int (round_half_even (x / ulp)) * ulp - x\<bar>"
  proof -
    have "(of_int (round_half_even (x / ulp)) - x / ulp) * ulp
        = of_int (round_half_even (x / ulp)) * ulp - x"
      using ulp by (simp add: left_diff_distrib)
    then show ?thesis
      using ulp by (metis abs_mult abs_of_pos)
  qed
  moreover have "to_double x = of_int (round_half_even (x / ulp)) * ulp"
    using False by (simp add: to_double_def Let_def ulp_def)
  ultimately have "\<bar>to_double x - x\<bar> \<le> ulp / 2"
    by (simp only: mult.commute [of "1 / 2"] times_divide_eq_right mult_1_right)
  also have "ulp / 2 = binade \<bar>x\<bar> / 2 ^ 53"
    by (simp add: ulp_def)
  also have "\<dots> \<le> \<bar>x\<bar> / 2 ^ 53"
    using b by (simp add: divide_right_mono)
  finally show ?thesis .
qed

lemma to_double_zero [simp]: "to_double 0 = 0"
  by (simp add: to_double_def)

lemma py_round1_error:
  "\<exists>v. py_round1 (Num x) = Num v \<and> \<bar>v - x\<bar> \<le> 1 / 20 + (\<bar>x\<bar> + 1 / 20) / 2 ^ 53"
proof -
  define d where "d = (of_int (round_half_even (x * 10)) / 10 :: rat)"
  have "\<bar>of_int (round_half_even (x * 10)) - x * 10\<bar> \<le> 1 / 2"
    by (rule round_half_even_error)
  then have d: "\<bar>d - x\<bar> \<le> 1 / 20"
    unfolding d_def by (simp add: abs_le_iff field_simps)
  then have "\<bar>d\<bar> \<le> \<bar>x\<bar> + 1 / 20"
    by linarith
  then have "\<bar>d\<bar> / 2 ^ 53 \<le> (\<bar>x\<bar> + 1 / 20) / 2 ^ 53"
    by (simp add: divide_right_mono)
  with to_double_error [of d] have "\<bar>to_double d - d\<bar> \<le> (\<bar>x\<bar> + 1 / 20) / 2 ^ 53"
    by linarith
  with d have "\<bar>to_double d - x\<bar> \<le> 1 / 20 + (\<bar>x\<bar> + 1 / 20) / 2 ^ 53"
    by linarith
  then show ?thesis
    by (simp add: d_def)
qed

lemma to_double_rel:
  assumes "0 \<le> x"
  shows "x * (1 - 1 / 2 ^ 53) \<le> to_double x" and "to_double x \<le> x * (1 + 1 / 2 ^ 53)"
proof -
  have "\<bar>to_double x - x\<bar> \<le> x / 2 ^ 53"
    using to_double_error [of x] assms by simp
  then have "x - x / 2 ^ 53 \<le> to_double x" and "to_double x \<le> x + x / 2 ^ 53"
    by linarith+
  moreover have "x * (1 - 1 / 2 ^ 53) = x - x / 2 ^ 53" and "x * (1 + 1 / 2 ^ 53) = x + x / 2 ^ 53"
    by (simp_all add: algebra_simps)
  ultimately show "x * (1 - 1 / 2 ^ 53) \<le> to_double x" and "to_double x \<le> x * (1 + 1 / 2 ^ 53)"
    by (simp_all only:)
qed

lemma to_double_chain:
  assumes "0 \<le> t" and "0 \<le> lo" and "t * lo \<le> x" and "x \<le> t * hi"
  shows "t * (lo * (1 - 1 / 2 ^ 53)) \<le> to_double x"
    and "to_double x \<le> t * (hi * (1 + 1 / 2 ^ 53))"
proof -
  have x: "0 \<le> x"
    using assms(1-3) by (meson mult_nonneg_nonneg order_trans)
  have "t * lo * (1 - 1 / 2 ^ 53) \<le> x * (1 - 1 / 2 ^ 53)"
    using assms(3) by (intro mult_right_mono) simp_all
  from order_trans [OF this to_double_rel(1) [OF x]]
  show "t * (lo * (1 - 1 / 2 ^ 53)) \<le> to_double x"
    by (simp only: mult.assoc)
  have "x * (1 + 1 / 2 ^ 53) \<le> t * hi * (1 + 1 / 2 ^ 53)"
    using assms(4) by (intro mult_right_mono) simp_all
  from order_trans [OF to_double_rel(2) [OF x] this]
  show "to_double x \<le> t * (hi * (1 + 1 / 2 ^ 53))"
    by (simp only: mult.assoc)
qed

lemma relative_to_absolute:
  fixes Q q2 :: rat
  assumes "Q * (1 - 4 / 2 ^ 53) \<le> q2" "q2 \<le> Q * (1 + 4 / 2 ^ 53)" "Q < 200"
  shows "\<bar>q2 - Q\<bar> \<le> 800 / 2 ^ 53"
proof -
  have "q2 - Q \<le> Q * (4 / 2 ^ 53)" "Q - q2 \<le> Q * (4 / 2 ^ 53)"
    using assms(1,2) by (simp_all add: algebra_simps)
  moreover have "Q * (4 / 2 ^ 53) \<le> 200 * (4 / 2 ^ 53)"
    using assms(3) by (intro mult_right_mono) simp_all
  ultimately have "q2 - Q \<le> 200 * (4 / 2 ^ 53)" "Q - q2 \<le> 200 * (4 / 2 ^ 53)"
    by (blast intro: order_trans)+
  then have "\<bar>q2 - Q\<bar> \<le> 200 * (4 / 2 ^ 53)"
    by (intro abs_leI) (simp_all only: minus_diff_eq)
  moreover have "(200 * (4 / 2 ^ 53) :: rat) = 800 / 2 ^ 53"
    by simp
  ultimately show ?thesis
    by (simp only:)
qed

lemma rounded_rate_close:
  fixes m Q q2 :: rat
  assumes near: "\<bar>q2 - Q\<bar> \<le> 800 / 2 ^ 53" and m_def: "m = (if q2 < 100 then q2 else 100)"
    and q2_nonneg: "0 \<le> q2" and e: "\<bar>td - (100 - m)\<bar> \<le> \<bar>100 - m\<bar> / 2 ^ 53"
  shows "\<bar>td - (100 - min 100 Q)\<bar> \<le> 1 / (2 * 10 ^ 12)"
proof -
  define eps where "eps = (800 / 2 ^ 53 :: rat)"
  define del where "del = (100 / 2 ^ 53 :: rat)"
  have near': "\<bar>q2 - Q\<bar> \<le> eps"
    using near by (simp only: eps_def)
  have m: "0 \<le> 100 - m" "100 - m \<le> 100"
    using q2_nonneg by (simp_all add: m_def)
  have mm: "\<bar>m - min 100 Q\<bar> \<le> eps"
    using near' by (auto simp: m_def min_def abs_le_iff)
  have "\<bar>100 - m\<bar> / 2 ^ 53 \<le> 100 / 2 ^ 53"
    using m by (intro divide_right_mono) simp_all
  with e have "\<bar>td - (100 - m)\<bar> \<le> del"
    unfolding del_def by (rule order_trans)
  with mm have "\<bar>td - (100 - min 100 Q)\<bar> \<le> eps + del"
    by linarith
  moreover have "eps + del \<le> 1 / (2 * 10 ^ 12)"
    by (simp add: eps_def del_def)
  ultimately show ?thesis
    by (rule order_trans)
qed

lemma py_sum_Nil [simp]: "py_sum w [] = Num 0"
  by (simp add: py_sum_def plain_sum_def neumaier_sum_def)

lemma float_mean_Nil [simp]: "float_mean w [] = Inl ZeroDivisionError"
  by (simp add: float_mean_def)

lemma float_mean_Cons: "rates \<noteq> [] \<Longrightarrow> \<exists>m. float_mean w rates = Inr m"
  by (cases "py_sum w rates") (simp_all add: float_mean_def)

lemma compute_avg_match_Nil [simp]: "compute_avg_match w [] = Inl ZeroDivisionError"
  by (simp add: compute_avg_match_def)

lemma compute_avg_match_Cons: "rates \<noteq> [] \<Longrightarrow> \<exists>v. compute_avg_match w rates = Inr v"
  using float_mean_Cons [of rates w] by (auto simp: compute_avg_match_def)

lemma compute_benchmark_avg_Inr: "\<exists>v. compute_benchmark_avg w rates = Inr v"
  using float_mean_Cons [of rates w] by (auto simp: compute_benchmark_avg_def)

lemma mark_benchmark_sel [simp]:
  "employee_id (mark_benchmark blist c) = employee_id c"
  "name (mark_benchmark blist c) = name c"
  "final_match_rate (mark_benchmark blist c) = final_match_rate c"
  "is_benchmark (mark_benchmark blist c) \<longleftrightarrow> employee_id c \<in> set blist"
  by (simp_all add: mark_benchmark_def)

lemma mset_sort_values_desc: "mset (sort_values_desc df) = mset df"
  by (simp add: sort_values_desc_def)

lemma mset_rank_candidates:
  "mset (rank_candidates blist df) = mset (map (mark_benchmark blist) df)"
  by (simp add: rank_candidates_def mset_sort_values_desc)

lemma set_rank_candidates:
  "set (rank_candidates blist df) = mark_benchmark blist ` set df"
  using mset_rank_candidates [of blist df, THEN arg_cong, of set_mset] by simp

lemma rank_candidates_Nil_iff: "rank_candidates blist df = [] \<longleftrightarrow> df = []"
  using set_rank_candidates [of blist df] by (metis image_is_empty set_empty)

lemma build_results_empty: "build_results w vid prof blist [] = Inl ZeroDivisionError"
  by (simp add: build_results_def Let_def rank_candidates_def sort_values_desc_def)

lemma build_results_nonempty:
  assumes "df \<noteq> []"
  shows "\<exists>avg bavg.
    compute_avg_match w (map final_match_rate (rank_candidates blist df)) = Inr avg \<and>
    compute_benchmark_avg w
      (map final_match_rate (filter is_benchmark (rank_candidates blist df))) = Inr bavg \<and>
    build_results w vid prof blist df =
      Inr \<lparr>vacancy_id = vid, job_profile = prof, talent_df = rank_candidates blist df,
           analytics =
             \<lparr>avg_match = avg, benchmark_avg = bavg,
              top_talent_count = compute_top_talent_count
                (map final_match_rate (rank_candidates blist df))\<rparr>,
           stored_benchmark_ids = blist\<rparr>"
proof -
  have "map final_match_rate (rank_candidates blist df) \<noteq> []"
    using assms by (simp add: rank_candidates_Nil_iff)
  then obtain avg where avg:
      "compute_avg_match w (map final_match_rate (rank_candidates blist df)) = Inr avg"
    using compute_avg_match_Cons by blast
  obtain bavg where bavg: "compute_benchmark_avg w
      (map final_match_rate (filter is_benchmark (rank_candidates blist df))) = Inr bavg"
    using compute_benchmark_avg_Inr by blast
  show ?thesis
    using avg bavg by (simp add: build_results_def Let_def)
qed

lemma build_results_error:
  "build_results w vid prof blist df = Inl e \<Longrightarrow> e = ZeroDivisionError"
  using build_results_nonempty [of df w blist vid prof]
  by (cases "df = []") (auto simp: build_results_empty)

lemma build_results_InrD:
  assumes "build_results w vid prof blist df = Inr r"
  shows "df \<noteq> []" and "talent_df r = rank_candidates blist df"
    and "stored_benchmark_ids r = blist"
    and "compute_benchmark_avg w (map final_match_rate (filter is_benchmark (talent_df r)))
      = Inr (benchmark_avg (analytics r))"
proof -
  show ne: "df \<noteq> []" using assms by (auto simp: build_results_empty)
  from build_results_nonempty [OF ne, of w blist vid prof] assms
  show "talent_df r = rank_candidates blist df" "stored_benchmark_ids r = blist"
    "compute_benchmark_avg w (map final_match_rate (filter is_benchmark (talent_df r)))
      = Inr (benchmark_avg (analytics r))"
    by auto
qed

lemma build_results_ranking:
  assumes "compensated_sum w' = compensated_sum w"
  shows "map_sum id (\<lambda>r. (talent_df r, analytics r, stored_benchmark_ids r))
      (build_results w' vid' prof' blist df) =
    map_sum id (\<lambda>r. (talent_df r, analytics r, stored_benchmark_ids r))
      (build_results w vid prof blist df)"
  using assms
  by (simp add: build_results_def Let_def compute_avg_match_def compute_benchmark_avg_def
      float_mean_def py_sum_def split: sum.splits)

lemma build_results_vacancy:
  assumes "compensated_sum w' = compensated_sum w"
  shows "map_sum id (\<lambda>r. r\<lparr>vacancy_id := None\<rparr>) (build_results w' vid' prof blist df) =
    map_sum id (\<lambda>r. r\<lparr>vacancy_id := None\<rparr>) (build_results w vid prof blist df)"
  using assms
  by (simp add: build_results_def Let_def compute_avg_match_def compute_benchmark_avg_def
      float_mean_def py_sum_def split: sum.splits)

lemma stored_results_vacancy:
  assumes "compensated_sum w' = compensated_sum w"
  shows "map_sum id (\<lambda>r. ss\<lparr>results := Some r\<rparr>)
      (map_sum id (\<lambda>r. r\<lparr>vacancy_id := None\<rparr>) (build_results w' vid' prof blist df)) =
    map_sum id (\<lambda>r. ss\<lparr>results := Some r\<rparr>)
      (map_sum id (\<lambda>r. r\<lparr>vacancy_id := None\<rparr>) (build_results w vid prof blist df))"
  by (simp only: build_results_vacancy [OF assms, of vid' prof blist df vid])

lemma stored_without_vacancy_id:
  "map_prod without_vacancy_id id
     (case outcome of
        Inl e \<Rightarrow> (Inl e, ms)
      | Inr r \<Rightarrow> (Inr (ss\<lparr>results := Some r\<rparr>), ms)) =
   (map_sum id (\<lambda>r. ss\<lparr>results := Some r\<rparr>)
      (map_sum id (\<lambda>r. r\<lparr>vacancy_id := None\<rparr>) outcome), ms)"
  by (cases outcome) (simp_all add: without_vacancy_id_def)

lemma split_comma_plain: "CHR '','' \<notin> set x \<Longrightarrow> split_comma x = [x]"
  by (induction x) auto

lemma split_comma_append:
  "CHR '','' \<notin> set x \<Longrightarrow> split_comma (x @ CHR '','' # rest) = x # split_comma rest"
  by (induction x) auto

lemma split_comma_join:
  "\<forall>i \<in> set (x # xs). CHR '','' \<notin> set i \<Longrightarrow>
   split_comma (join_comma_space (x # xs)) = x # map ((#) CHR '' '') xs"
proof (induction xs arbitrary: x)
  case Nil
  then show ?case by (simp add: split_comma_plain)
next
  case (Cons y ys)
  then have "split_comma (join_comma_space (y # ys)) = y # map ((#) CHR '' '') ys"
    by simp
  moreover have "CHR '','' \<notin> set x"
    using Cons.prems by simp
  ultimately show ?case
    by (simp add: split_comma_append)
qed

lemma strip_after_space: "strip y = y \<Longrightarrow> strip (CHR '' '' # y) = y"
  by (simp add: strip_def lstrip_def isspace_def)

lemma benchmark_list_join:
  assumes "ids \<noteq> []" and "\<forall>i \<in> set ids. CHR '','' \<notin> set i \<and> strip i = i"
  shows "benchmark_list (join_comma_space ids) = take 3 ids"
proof -
  obtain x xs where ids: "ids = x # xs"
    using assms(1) by (cases ids) auto
  have "split_comma (join_comma_space (x # xs)) = x # map ((#) CHR '' '') xs"
    using assms(2) ids by (intro split_comma_join) simp
  moreover have "map strip (x # map ((#) CHR '' '') xs) = x # xs"
    using assms(2) ids by (simp add: strip_after_space map_idI)
  ultimately show ?thesis
    by (simp add: benchmark_list_def ids)
qed

lemma generate_job_profile_Inr:
  "\<exists>prof. fst (generate_job_profile w r l p) = Inr prof"
  by (auto simp: generate_job_profile_def split: sum.splits)

lemma generate_clicked_error:
  assumes "fst (generate_clicked w f ss) = Inl e"
  shows "e = TypeError \<or> e = ZeroDivisionError"
proof -
  obtain prof where
    "fst (generate_job_profile w (role_name f) (job_level f) (role_purpose f)) = Inr prof"
    using generate_job_profile_Inr by blast
  with assms show ?thesis
    by (auto simp: generate_clicked_def Let_def
        split: if_splits prod.splits sum.splits option.splits dest: build_results_error)
qed

lemma fst_generate_clicked:
  assumes "\<not> (role_name f = [] \<or> job_level f = [] \<or> role_purpose f = [] \<or> benchmark_ids f = [])"
    and "fst (generate_job_profile w (role_name f) (job_level f) (role_purpose f)) = Inr prof"
  shows "fst (generate_clicked w f ss) =
    (case (if fst (init_supabase_connection w ss) \<and> fst (insert_job_vacancy w) \<noteq> None
           then fst (execute_matching_query w)
           else Some (generate_sample_data (random_draw w))) of
       None \<Rightarrow> Inl TypeError
     | Some df \<Rightarrow>
         map_sum id (\<lambda>r. ss\<lparr>results := Some r\<rparr>)
           (build_results w
              (if fst (init_supabase_connection w ss) then fst (insert_job_vacancy w)
               else Some (''JV-'' @ now_stamp w))
              prof (benchmark_list (benchmark_ids f)) df))"
  using assms
  by (auto simp: generate_clicked_def Let_def split: prod.splits sum.splits option.splits)

lemma ranking_outcome_map_sum:
  "ranking_outcome (map_sum id (\<lambda>r. ss\<lparr>results := Some r\<rparr>) outcome) =
   map_sum id Some
     (map_sum id (\<lambda>r. (talent_df r, analytics r, stored_benchmark_ids r)) outcome)"
  by (cases outcome) (simp_all add: ranking_outcome_def)

lemma AggregateVariable_value:
  assumes "0 \<le> c" "c \<le> 100" "0 < b" "b \<le> 100" "c \<noteq> b"
  shows "AggregateVariable z (Num c) (Num b) =
    Inr (Num (to_double (100 -
      (let q = to_double (to_double (\<bar>to_double (c - b)\<bar> / b) * 100)
       in if q < 100 then q else 100))))"
  using assms
  by (simp add: AggregateVariable_def valid_score_def pymin_def Let_def)

lemma AggregateVariable_close:
  assumes "0 \<le> c" "c \<le> 100" "0 < b" "b \<le> 100"
  shows "\<exists>r. AggregateVariable z (Num c) (Num b) = Inr (Num r) \<and>
    \<bar>r - (100 - min 100 (\<bar>c - b\<bar> / b * 100))\<bar> \<le> 1 / (2 * 10 ^ 12)"
proof (cases "c = b")
  case True
  then show ?thesis
    using assms by (simp add: AggregateVariable_def valid_score_def)
next
  case False
  define T where "T = \<bar>c - b\<bar> / b"
  define Q where "Q = T * 100"
  define a where "a = \<bar>to_double (c - b)\<bar>"
  define q1 where "q1 = to_double (a / b)"
  define q2 where "q2 = to_double (q1 * 100)"
  define m where "m = (if q2 < 100 then q2 else 100)"
  have T: "0 \<le> T" using assms(3) by (simp add: T_def)
  have Q: "0 \<le> Q" using T by (simp add: Q_def)
  have "\<bar>to_double (c - b) - (c - b)\<bar> \<le> \<bar>c - b\<bar> / 2 ^ 53"
    by (rule to_double_error)
  then have "\<bar>c - b\<bar> - \<bar>c - b\<bar> / 2 ^ 53 \<le> a" and "a \<le> \<bar>c - b\<bar> + \<bar>c - b\<bar> / 2 ^ 53"
    unfolding a_def by linarith+
  moreover have "\<bar>c - b\<bar> * (1 - 1 / 2 ^ 53) = \<bar>c - b\<bar> - \<bar>c - b\<bar> / 2 ^ 53"
    and "\<bar>c - b\<bar> * (1 + 1 / 2 ^ 53) = \<bar>c - b\<bar> + \<bar>c - b\<bar> / 2 ^ 53"
    by (simp_all add: algebra_simps)
  ultimately have a: "\<bar>c - b\<bar> * (1 - 1 / 2 ^ 53) \<le> a" "a \<le> \<bar>c - b\<bar> * (1 + 1 / 2 ^ 53)"
    by (simp_all only:)
  have "\<bar>c - b\<bar> * (1 - 1 / 2 ^ 53) / b \<le> a / b"
    and "a / b \<le> \<bar>c - b\<bar> * (1 + 1 / 2 ^ 53) / b"
    using a assms(3) by (simp_all only: divide_right_mono less_imp_le)
  moreover have "T * (1 - 1 / 2 ^ 53) = \<bar>c - b\<bar> * (1 - 1 / 2 ^ 53) / b"
    and "T * (1 + 1 / 2 ^ 53) = \<bar>c - b\<bar> * (1 + 1 / 2 ^ 53) / b"
    by (simp_all add: T_def)
  ultimately have p: "T * (1 - 1 / 2 ^ 53) \<le> a / b" "a / b \<le> T * (1 + 1 / 2 ^ 53)"
    by (simp_all only:)
  have q1: "T * ((1 - 1 / 2 ^ 53) * (1 - 1 / 2 ^ 53)) \<le> q1"
      "q1 \<le> T * ((1 + 1 / 2 ^ 53) * (1 + 1 / 2 ^ 53))"
    unfolding q1_def using to_double_chain [OF T _ p] by simp_all
  have q1': "Q * ((1 - 1 / 2 ^ 53) * (1 - 1 / 2 ^ 53)) \<le> q1 * 100"
      "q1 * 100 \<le> Q * ((1 + 1 / 2 ^ 53) * (1 + 1 / 2 ^ 53))"
    using q1 by (simp_all add: Q_def)
  have q2: "Q * ((1 - 1 / 2 ^ 53) * (1 - 1 / 2 ^ 53) * (1 - 1 / 2 ^ 53)) \<le> q2"
      "q2 \<le> Q * ((1 + 1 / 2 ^ 53) * (1 + 1 / 2 ^ 53) * (1 + 1 / 2 ^ 53))"
    unfolding q2_def using to_double_chain [OF Q _ q1'] by simp_all
  have lo: "(1 - 4 / 2 ^ 53 :: rat) \<le> (1 - 1 / 2 ^ 53) * (1 - 1 / 2 ^ 53) * (1 - 1 / 2 ^ 53)"
    by simp
  have hi: "(1 + 1 / 2 ^ 53) * (1 + 1 / 2 ^ 53) * (1 + 1 / 2 ^ 53) \<le> (1 + 4 / 2 ^ 53 :: rat)"
    by simp
  have "Q * (1 - 4 / 2 ^ 53) \<le> Q * ((1 - 1 / 2 ^ 53) * (1 - 1 / 2 ^ 53) * (1 - 1 / 2 ^ 53))"
    using Q lo by (rule mult_left_mono [rotated])
  with q2(1) have low: "Q * (1 - 4 / 2 ^ 53) \<le> q2"
    by linarith
  have "Q * ((1 + 1 / 2 ^ 53) * (1 + 1 / 2 ^ 53) * (1 + 1 / 2 ^ 53)) \<le> Q * (1 + 4 / 2 ^ 53)"
    using Q hi by (rule mult_left_mono [rotated])
  with q2(2) have high: "q2 \<le> Q * (1 + 4 / 2 ^ 53)"
    by linarith
  have computed: "AggregateVariable z (Num c) (Num b) = Inr (Num (to_double (100 - m)))"
    using AggregateVariable_value [OF assms False, of z]
    by (simp add: m_def q2_def q1_def a_def Let_def)
  have exact: "\<bar>c - b\<bar> / b * 100 = Q"
    by (simp add: Q_def T_def)
  have "\<bar>to_double (100 - m) - (100 - min 100 Q)\<bar> \<le> 1 / (2 * 10 ^ 12)"
  proof (cases "200 \<le> Q")
    case True
    then have "200 * (1 - 4 / 2 ^ 53) \<le> Q * (1 - 4 / 2 ^ 53)"
      by (intro mult_right_mono) simp_all
    with low have "100 \<le> q2"
      by simp
    then have "m = 100"
      by (simp add: m_def)
    with True show ?thesis
      by simp
  next
    case small: False
    then have near: "\<bar>q2 - Q\<bar> \<le> 800 / 2 ^ 53"
      using low high by (intro relative_to_absolute) simp_all
    have q2_nonneg: "0 \<le> q2"
    proof -
      have "0 \<le> Q * (1 - 4 / 2 ^ 53)"
        using Q by (intro mult_nonneg_nonneg) simp_all
      with low show ?thesis by linarith
    qed
    have "\<bar>to_double (100 - m) - (100 - m)\<bar> \<le> \<bar>100 - m\<bar> / 2 ^ 53"
      by (rule to_double_error)
    with near m_def q2_nonneg show ?thesis
      by (rule rounded_rate_close)
  qed
  with computed exact show ?thesis
    by simp
qed

section \<open>Properties\<close>

text \<open>
  C1 (as amended). Nothing but the vacancy id depends on the clock, and the ranking does not
  depend on the language model either. Two runs on the same form and session, in worlds that
  differ in the clock reading alone, show the same messages and end with the same exception or
  store results that agree in every field but \<^verbatim>\<open>vacancy_id\<close>. Two runs in worlds that give
  the same candidate data (the rows the matching query returns, the random draws behind the
  sample rows, the same database availability) end with the same exception or store the same
  ranked frame, the same analytics and the same resolved benchmark list, whatever the clock
  reading, the reply of the language-model API and the JSON decoding are in each. The stored
  results as a whole are not the same, since the vacancy id is read off the clock and the job
  profile is the reply.
\<close>

theorem ranking_fixed_by_candidate_data:
  "map_prod without_vacancy_id id (generate_clicked (w\<lparr>now_stamp := t\<rparr>) f ss) =
   map_prod without_vacancy_id id (generate_clicked w f ss) \<and>
   ranking_outcome
     (fst (generate_clicked (w\<lparr>now_stamp := t, api_reply := a, json_loads := j\<rparr>) f ss)) =
   ranking_outcome (fst (generate_clicked w f ss))"
proof
  show "map_prod without_vacancy_id id (generate_clicked (w\<lparr>now_stamp := t\<rparr>) f ss) =
    map_prod without_vacancy_id id (generate_clicked w f ss)"
  proof (cases "role_name f = [] \<or> job_level f = [] \<or> role_purpose f = [] \<or> benchmark_ids f = []")
    case True
    then show ?thesis
      by (simp add: generate_clicked_def)
  next
    case False
    let ?w' = "w\<lparr>now_stamp := t\<rparr>"
    have init: "init_supabase_connection ?w' ss = init_supabase_connection w ss"
      by (simp add: init_supabase_connection_def split: option.splits)
    have query: "execute_matching_query ?w' = execute_matching_query w"
      by (simp add: execute_matching_query_def split: sum.splits)
    have "request_profile ?w' = request_profile w"
      by (simp add: request_profile_def fun_eq_iff split: sum.splits json.splits)
    then have profile: "generate_job_profile ?w' = generate_job_profile w"
      by (simp add: generate_job_profile_def fun_eq_iff)
    have insert: "snd (insert_job_vacancy ?w') = snd (insert_job_vacancy w)"
      "fst (insert_job_vacancy ?w') = None \<longleftrightarrow> fst (insert_job_vacancy w) = None"
      by (simp_all add: insert_job_vacancy_def split: option.splits)
    show ?thesis
      using False insert
      by (auto simp: generate_clicked_def Let_def init query profile stored_without_vacancy_id
          split: prod.splits sum.splits option.splits intro!: stored_results_vacancy)
  qed
next
  show "ranking_outcome
      (fst (generate_clicked (w\<lparr>now_stamp := t, api_reply := a, json_loads := j\<rparr>) f ss)) =
    ranking_outcome (fst (generate_clicked w f ss))"
  proof (cases "role_name f = [] \<or> job_level f = [] \<or> role_purpose f = [] \<or> benchmark_ids f = []")
    case True
    then show ?thesis
      by (simp add: generate_clicked_def)
  next
    case False
    let ?w' = "w\<lparr>now_stamp := t, api_reply := a, json_loads := j\<rparr>"
    obtain prof where prof:
      "fst (generate_job_profile w (role_name f) (job_level f) (role_purpose f)) = Inr prof"
      using generate_job_profile_Inr by blast
    obtain prof' where prof':
      "fst (generate_job_profile ?w' (role_name f) (job_level f) (role_purpose f)) = Inr prof'"
      using generate_job_profile_Inr by blast
    have init: "init_supabase_connection ?w' ss = init_supabase_connection w ss"
      by (simp add: init_supabase_connection_def split: option.splits)
    have query: "execute_matching_query ?w' = execute_matching_query w"
      by (simp add: execute_matching_query_def split: sum.splits)
    have insert: "fst (insert_job_vacancy ?w') = None \<longleftrightarrow> fst (insert_job_vacancy w) = None"
      by (simp add: insert_job_vacancy_def split: option.splits)
    have sum: "compensated_sum ?w' = compensated_sum w"
      by simp
    define frame where "frame =
      (if fst (init_supabase_connection w ss) \<and> fst (insert_job_vacancy w) \<noteq> None
       then fst (execute_matching_query w)
       else Some (generate_sample_data (random_draw w)))"
    define vid where "vid =
      (if fst (init_supabase_connection w ss) then fst (insert_job_vacancy w)
       else Some (''JV-'' @ now_stamp w))"
    define vid' where "vid' =
      (if fst (init_supabase_connection w ss) then fst (insert_job_vacancy ?w')
       else Some (''JV-'' @ t))"
    have new: "fst (generate_clicked ?w' f ss) =
      (case frame of
         None \<Rightarrow> Inl TypeError
       | Some df \<Rightarrow>
           map_sum id (\<lambda>r. ss\<lparr>results := Some r\<rparr>)
             (build_results ?w' vid' prof' (benchmark_list (benchmark_ids f)) df))"
      unfolding fst_generate_clicked [OF False prof'] init query frame_def vid'_def
      using insert by auto
    have old: "fst (generate_clicked w f ss) =
      (case frame of
         None \<Rightarrow> Inl TypeError
       | Some df \<Rightarrow>
           map_sum id (\<lambda>r. ss\<lparr>results := Some r\<rparr>)
             (build_results w vid prof (benchmark_list (benchmark_ids f)) df))"
      unfolding fst_generate_clicked [OF False prof] frame_def vid_def
      by simp
    show ?thesis
      unfolding new old
      by (cases frame)
        (simp_all add: ranking_outcome_map_sum
          build_results_ranking [OF sum, where vid' = vid' and prof' = prof' and vid = vid and prof = prof])
  qed
qed

text \<open>
  The claim as stated fails: with the same form, session and candidate rows, a run one second
  later stores another vacancy id, so the two stored results differ.
\<close>

theorem vacancy_id_clock_counterexample:
  "(case fst (generate_clicked
        (database_world [example_row ''EMP1000'' (Num 82), example_row ''EMP1001'' (Num 61)])
        example_form configured_session) of
      Inl e \<Rightarrow> None
    | Inr ss' \<Rightarrow> map_option vacancy_id (results ss')) = Some (Some ''JV-20250101120000'') \<and>
   (case fst (generate_clicked
        ((database_world [example_row ''EMP1000'' (Num 82), example_row ''EMP1001'' (Num 61)])
           \<lparr>now_stamp := ''20250101120001''\<rparr>)
        example_form configured_session) of
      Inl e \<Rightarrow> None
    | Inr ss' \<Rightarrow> map_option vacancy_id (results ss')) = Some (Some ''JV-20250101120001'') \<and>
   generate_clicked
     (database_world [example_row ''EMP1000'' (Num 82), example_row ''EMP1001'' (Num 61)])
     example_form configured_session \<noteq>
   generate_clicked
     ((database_world [example_row ''EMP1000'' (Num 82), example_row ''EMP1001'' (Num 61)])
        \<lparr>now_stamp := ''20250101120001''\<rparr>)
     example_form configured_session"
proof -
  let ?w = "database_world [example_row ''EMP1000'' (Num 82), example_row ''EMP1001'' (Num 61)]"
  have first: "(case fst (generate_clicked ?w example_form configured_session) of
      Inl e \<Rightarrow> None
    | Inr ss' \<Rightarrow> map_option vacancy_id (results ss')) = Some (Some ''JV-20250101120000'')"
    by code_simp
  have second: "(case fst (generate_clicked (?w\<lparr>now_stamp := ''20250101120001''\<rparr>)
        example_form configured_session) of
      Inl e \<Rightarrow> None
    | Inr ss' \<Rightarrow> map_option vacancy_id (results ss')) = Some (Some ''JV-20250101120001'')"
    by code_simp
  have "generate_clicked ?w example_form configured_session \<noteq>
      generate_clicked (?w\<lparr>now_stamp := ''20250101120001''\<rparr>) example_form configured_session"
  proof
    assume "generate_clicked ?w example_form configured_session =
      generate_clicked (?w\<lparr>now_stamp := ''20250101120001''\<rparr>) example_form configured_session"
    with first second have "Some (Some ''JV-20250101120000'') = Some (Some ''JV-20250101120001'')"
      by (simp only:)
    then show False
      by simp
  qed
  with first second show ?thesis
    by (simp only: simp_thms)
qed

text \<open>
  C2 (as amended). The ranked frame is the flagged candidate frame reordered: it has the same
  rows, and the final match rates never increase along it; rows whose rate is not a number, if
  there are any, come last. The sort has the rate as its only key, so nothing orders rows of
  equal rate by employee id.
\<close>

theorem rank_candidates_descending:
  "sorted_wrt (\<lambda>a b. fge (final_match_rate a) (final_match_rate b))
     [r \<leftarrow> rank_candidates blist df. final_match_rate r \<noteq> NaN] \<and>
   rank_candidates blist df =
     [r \<leftarrow> rank_candidates blist df. final_match_rate r \<noteq> NaN] @
     [r \<leftarrow> rank_candidates blist df. final_match_rate r = NaN] \<and>
   mset (rank_candidates blist df) = mset (map (mark_benchmark blist) df) \<and>
   mset (map employee_id (rank_candidates blist df)) = mset (map employee_id df)"
proof -
  define rows where "rows = map (mark_benchmark blist) df"
  define nums where
    "nums = sort_key (\<lambda>r. - num (final_match_rate r)) [r \<leftarrow> rows. final_match_rate r \<noteq> NaN]"
  define nans where "nans = [r \<leftarrow> rows. final_match_rate r = NaN]"
  have ranked: "rank_candidates blist df = nums @ nans"
    by (simp add: rank_candidates_def sort_values_desc_def rows_def nums_def nans_def)
  have nums: "\<forall>r \<in> set nums. final_match_rate r \<noteq> NaN"
    by (simp add: nums_def)
  have nans: "\<forall>r \<in> set nans. final_match_rate r = NaN"
    by (simp add: nans_def)
  have split: "[r \<leftarrow> nums @ nans. final_match_rate r \<noteq> NaN] = nums"
      "[r \<leftarrow> nums @ nans. final_match_rate r = NaN] = nans"
    using nums nans by (simp_all add: filter_id_conv filter_empty_conv)
  have "sorted (map (\<lambda>r. - num (final_match_rate r)) nums)"
    by (simp add: nums_def)
  then have "sorted_wrt (\<lambda>a b. num (final_match_rate b) \<le> num (final_match_rate a)) nums"
    by (simp add: sorted_map)
  then have "sorted_wrt (\<lambda>a b. fge (final_match_rate a) (final_match_rate b)) nums"
  proof (rule sorted_wrt_mono_rel [rotated])
    fix a b
    assume "a \<in> set nums" "b \<in> set nums"
      and "num (final_match_rate b) \<le> num (final_match_rate a)"
    with nums show "fge (final_match_rate a) (final_match_rate b)"
      by (cases "final_match_rate a"; cases "final_match_rate b") (auto simp: fge_def)
  qed
  moreover have "mset (map employee_id (rank_candidates blist df)) = mset (map employee_id df)"
  proof -
    have "mset (map employee_id (rank_candidates blist df))
        = image_mset employee_id (mset (map (mark_benchmark blist) df))"
      by (simp only: mset_map mset_rank_candidates)
    also have "\<dots> = mset (map employee_id df)"
      by (simp add: multiset.map_comp comp_def)
    finally show ?thesis .
  qed
  ultimately show ?thesis
    using mset_rank_candidates [of blist df] unfolding ranked split by simp
qed

text \<open>
  The claim as stated fails: two candidates with the same rate, listed with the larger
  employee id first, stay in that order.
\<close>

theorem rank_candidates_tie_counterexample:
  "map final_match_rate
     (rank_candidates [] [example_row ''EMP1001'' (Num 80), example_row ''EMP1000'' (Num 80)])
     = [Num 80, Num 80] \<and>
   map employee_id
     (rank_candidates [] [example_row ''EMP1001'' (Num 80), example_row ''EMP1000'' (Num 80)])
     = [''EMP1001'', ''EMP1000''] \<and>
   \<not> ordered_as_specified
     (rank_candidates [] [example_row ''EMP1001'' (Num 80), example_row ''EMP1000'' (Num 80)])"
  by code_simp

text \<open>
  C3 (as amended). Over an empty list of rates the average match computation fails, with
  Python's \<^verbatim>\<open>ZeroDivisionError\<close>, and so does the whole results step on an empty frame; it
  yields a value exactly when the list is not empty, so no default stands in for the empty case.
  The script has no cluster or final aggregation step.
\<close>

theorem avg_match_empty_fails:
  "compute_avg_match w [] = Inl ZeroDivisionError \<and>
   build_results w vid prof blist [] = Inl ZeroDivisionError \<and>
   ((\<exists>v. compute_avg_match w match_rates = Inr v) = (match_rates \<noteq> []))"
  using compute_avg_match_Cons [of match_rates w] by (auto simp: build_results_empty)

text \<open>
  The claim as stated fails in the kind of the error: on the empty list the failure is not the
  specification's \<open>EmptyAggregationError\<close>.
\<close>

theorem avg_match_empty_counterexample:
  "compute_avg_match (database_world []) [] = Inl ZeroDivisionError \<and>
   compute_avg_match (database_world []) [] \<noteq> Inl EmptyAggregationError"
  by simp

text \<open>
  C4 (as amended). In the stored results, the benchmark average is 0 when no ranked row is
  flagged as a benchmark. Otherwise it is \<^verbatim>\<open>round(..., 1)\<close> of the floating-point mean
  \<^verbatim>\<open>sum(...) / len(...)\<close> of the final match rates of the flagged rows: not a number when
  that mean is not a number, and else within 0.05, up to the rounding of one double, of that
  mean.
\<close>

theorem benchmark_avg_rounded_mean:
  assumes "build_results w vid prof blist df = Inr r"
  shows "let brs = map final_match_rate (filter is_benchmark (talent_df r)) in
     (brs = [] \<longrightarrow> benchmark_avg (analytics r) = Num 0) \<and>
     (brs \<noteq> [] \<longrightarrow>
        (\<exists>m. float_mean w brs = Inr m \<and> benchmark_avg (analytics r) = py_round1 m \<and>
           (m = NaN \<longrightarrow> benchmark_avg (analytics r) = NaN) \<and>
           (\<forall>x. m = Num x \<longrightarrow>
              (\<exists>v. benchmark_avg (analytics r) = Num v \<and>
                 \<bar>v - x\<bar> \<le> 1 / 20 + (\<bar>x\<bar> + 1 / 20) / 2 ^ 53))))"
proof -
  define brs where "brs = map final_match_rate (filter is_benchmark (talent_df r))"
  have avg: "compute_benchmark_avg w brs = Inr (benchmark_avg (analytics r))"
    using build_results_InrD(4) [OF assms] by (simp add: brs_def)
  have empty: "benchmark_avg (analytics r) = Num 0" if "brs = []"
    using avg that by (simp add: compute_benchmark_avg_def)
  have mean: "\<exists>m. float_mean w brs = Inr m \<and> benchmark_avg (analytics r) = py_round1 m \<and>
      (m = NaN \<longrightarrow> benchmark_avg (analytics r) = NaN) \<and>
      (\<forall>x. m = Num x \<longrightarrow>
        (\<exists>v. benchmark_avg (analytics r) = Num v \<and>
           \<bar>v - x\<bar> \<le> 1 / 20 + (\<bar>x\<bar> + 1 / 20) / 2 ^ 53))" if ne: "brs \<noteq> []"
  proof -
    obtain m where m: "float_mean w brs = Inr m"
      using float_mean_Cons [OF ne] by blast
    with avg ne have val: "benchmark_avg (analytics r) = py_round1 m"
      by (simp add: compute_benchmark_avg_def)
    show ?thesis
      using m val py_round1_error by (intro exI [of _ m]) auto
  qed
  show ?thesis
    using empty mean unfolding Let_def brs_def by blast
qed

text \<open>
  The theorem on a frame of four candidates, three of them benchmarks with rates 80.0, 80.1
  and 80.1.
\<close>

theorem benchmark_avg_rounded_mean_witness:
  "\<exists>r. build_results (database_world []) (Some ''JV-20250101120000'') JNull
          [''312'', ''335'', ''175'']
          [example_row ''312'' (Num 80), example_row ''EMP1000'' (Num 95),
           example_row ''335'' (float_literal (801 / 10)),
           example_row ''175'' (float_literal (801 / 10))] = Inr r \<and>
       map final_match_rate (filter is_benchmark (talent_df r))
         = [float_literal (801 / 10), float_literal (801 / 10), Num 80] \<and>
       benchmark_avg (analytics r) = float_literal (801 / 10)"
proof -
  let ?df = "[example_row ''312'' (Num 80), example_row ''EMP1000'' (Num 95),
           example_row ''335'' (float_literal (801 / 10)),
           example_row ''175'' (float_literal (801 / 10))]"
  let ?brs = "[float_literal (801 / 10), float_literal (801 / 10), Num 80]"
  obtain r where r: "build_results (database_world []) (Some ''JV-20250101120000'') JNull
      [''312'', ''335'', ''175''] ?df = Inr r"
    using build_results_nonempty [of ?df] by blast
  have "map final_match_rate (filter is_benchmark (rank_candidates [''312'', ''335'', ''175''] ?df))
      = ?brs"
    by code_simp
  then have brs: "map final_match_rate (filter is_benchmark (talent_df r)) = ?brs"
    by (simp only: build_results_InrD(2) [OF r])
  have ne: "?brs \<noteq> []"
    by simp
  note both = conjunct2 [OF benchmark_avg_rounded_mean [OF r, unfolded Let_def brs], THEN mp, OF ne]
  then obtain m where m: "float_mean (database_world []) ?brs = Inr m"
    and avg: "benchmark_avg (analytics r) = py_round1 m"
    by blast
  have "float_mean (database_world []) ?brs = Inr (Num (1408547695956241 / 17592186044416))"
    by code_simp
  with m have "m = Num (1408547695956241 / 17592186044416)"
    by simp
  moreover have "py_round1 (Num (1408547695956241 / 17592186044416)) = float_literal (801 / 10)"
    by code_simp
  ultimately have "benchmark_avg (analytics r) = float_literal (801 / 10)"
    using avg by simp
  with r brs show ?thesis
    by (intro exI [of _ r] conjI)
qed

text \<open>
  The claim as stated fails: for benchmark rates 80.0, 80.1 and 80.1 the floating-point mean
  is 80.06666666666666, with either way of summing, and the benchmark average is 80.1, which is
  neither that mean nor the exact mean of the three rates.
\<close>

theorem benchmark_avg_counterexample:
  "compute_benchmark_avg (database_world [])
     [Num 80, float_literal (801 / 10), float_literal (801 / 10)] = Inr (float_literal (801 / 10)) \<and>
   float_mean (database_world [])
     [Num 80, float_literal (801 / 10), float_literal (801 / 10)]
     = Inr (Num (1408547695956241 / 17592186044416)) \<and>
   compute_benchmark_avg ((database_world [])\<lparr>compensated_sum := True\<rparr>)
     [Num 80, float_literal (801 / 10), float_literal (801 / 10)] = Inr (float_literal (801 / 10)) \<and>
   float_mean ((database_world [])\<lparr>compensated_sum := True\<rparr>)
     [Num 80, float_literal (801 / 10), float_literal (801 / 10)]
     = Inr (Num (1408547695956241 / 17592186044416)) \<and>
   float_literal (801 / 10) \<noteq> Num (1408547695956241 / 17592186044416) \<and>
   float_literal (801 / 10) \<noteq> Num ((80 + to_double (801 / 10) + to_double (801 / 10)) / 3)"
  by code_simp

text \<open>
  C5. Whatever text is typed into the benchmark field, the run works with at most three IDs,
  and they are the first of the comma-separated, stripped pieces, in their order. When the
  caller writes a non-empty sequence of IDs (each without comma and without surrounding
  white space) separated by a comma and a space, the resolved list is exactly the first three
  of them, and a ranked row is flagged as a benchmark exactly when its employee id is one of
  these.
\<close>

theorem benchmark_list_first_three:
  "length (benchmark_list text) \<le> 3 \<and>
   prefix (benchmark_list text) (map strip (split_comma text)) \<and>
   (ids \<noteq> [] \<and> (\<forall>i \<in> set ids. CHR '','' \<notin> set i \<and> strip i = i) \<longrightarrow>
      benchmark_list (join_comma_space ids) = take 3 ids \<and>
      (\<forall>row \<in> set (rank_candidates (benchmark_list (join_comma_space ids)) df).
         is_benchmark row \<longleftrightarrow> employee_id row \<in> set (take 3 ids)))"
proof -
  have "length (benchmark_list text) \<le> 3"
    by (simp add: benchmark_list_def)
  moreover have "prefix (benchmark_list text) (map strip (split_comma text))"
    by (simp add: benchmark_list_def take_is_prefix)
  moreover have "benchmark_list (join_comma_space ids) = take 3 ids \<and>
      (\<forall>row \<in> set (rank_candidates (benchmark_list (join_comma_space ids)) df).
         is_benchmark row \<longleftrightarrow> employee_id row \<in> set (take 3 ids))"
    if "ids \<noteq> []" and "\<forall>i \<in> set ids. CHR '','' \<notin> set i \<and> strip i = i"
    using benchmark_list_join [OF that] by (auto simp: set_rank_candidates)
  ultimately show ?thesis
    by blast
qed

text \<open>
  The theorem for the four IDs 312, 335, 175 and 999: the fourth is ignored, also in the
  flags.
\<close>

theorem benchmark_list_first_three_witness:
  "benchmark_list (join_comma_space [''312'', ''335'', ''175'', ''999'']) = [''312'', ''335'', ''175''] \<and>
   map is_benchmark (rank_candidates
      (benchmark_list (join_comma_space [''312'', ''335'', ''175'', ''999'']))
      [example_row ''312'' (Num 90), example_row ''999'' (Num 80)]) = [True, False]"
proof -
  have hyp: "[''312'', ''335'', ''175'', ''999''] \<noteq> [] \<and>
      (\<forall>i \<in> set [''312'', ''335'', ''175'', ''999'']. CHR '','' \<notin> set i \<and> strip i = i)"
    by (simp add: strip_def lstrip_def rstrip_def isspace_def)
  have rows: "map employee_id (rank_candidates bl [example_row ''312'' (Num 90), example_row ''999'' (Num 80)])
      = [''312'', ''999'']" for bl
    by (simp add: rank_candidates_def sort_values_desc_def example_row_def mark_benchmark_def)
  from benchmark_list_first_three
    [of "[]" "[''312'', ''335'', ''175'', ''999'']" "[example_row ''312'' (Num 90), example_row ''999'' (Num 80)]"]
    hyp
  have "benchmark_list (join_comma_space [''312'', ''335'', ''175'', ''999''])
        = take 3 [''312'', ''335'', ''175'', ''999'']"
    and "\<forall>row \<in> set (rank_candidates (benchmark_list (join_comma_space [''312'', ''335'', ''175'', ''999'']))
          [example_row ''312'' (Num 90), example_row ''999'' (Num 80)]).
         is_benchmark row \<longleftrightarrow> employee_id row \<in> set (take 3 [''312'', ''335'', ''175'', ''999''])"
    by blast+
  then show ?thesis
    by (simp add: rank_candidates_def sort_values_desc_def example_row_def mark_benchmark_def)
qed

text \<open>
  C6 (as amended). No run of the generate flow ends with \<open>NoBenchmarksFoundError\<close>. When
  none of the resolved benchmark IDs is the employee id of a candidate of a non-empty frame, the
  results step goes through: no row is flagged, and the benchmark average is 0.
\<close>

theorem no_benchmark_match_proceeds:
  "fst (generate_clicked w f ss) \<noteq> Inl NoBenchmarksFoundError \<and>
   (df \<noteq> [] \<and> (\<forall>c \<in> set df. employee_id c \<notin> set blist) \<longrightarrow>
      (\<exists>r. build_results w vid prof blist df = Inr r \<and>
           (\<forall>row \<in> set (talent_df r). \<not> is_benchmark row) \<and>
           benchmark_avg (analytics r) = Num 0))"
proof -
  have "fst (generate_clicked w f ss) \<noteq> Inl NoBenchmarksFoundError"
    using generate_clicked_error [of w f ss NoBenchmarksFoundError] by auto
  moreover have "\<exists>r. build_results w vid prof blist df = Inr r \<and>
           (\<forall>row \<in> set (talent_df r). \<not> is_benchmark row) \<and>
           benchmark_avg (analytics r) = Num 0"
    if ne: "df \<noteq> []" and no: "\<forall>c \<in> set df. employee_id c \<notin> set blist"
  proof -
    obtain r where r: "build_results w vid prof blist df = Inr r"
      using build_results_nonempty [OF ne, of w blist vid prof] by blast
    have flags: "\<forall>row \<in> set (talent_df r). \<not> is_benchmark row"
      using no by (auto simp: build_results_InrD(2) [OF r] set_rank_candidates)
    then have "filter is_benchmark (talent_df r) = []"
      by (simp add: filter_empty_conv)
    with build_results_InrD(4) [OF r] have "benchmark_avg (analytics r) = Num 0"
      by (simp add: compute_benchmark_avg_def)
    with r flags show ?thesis
      by blast
  qed
  ultimately show ?thesis
    by blast
qed

text \<open>
  The theorem on a frame of two candidates and the IDs 312, 335 and 175.
\<close>

theorem no_benchmark_match_proceeds_witness:
  "\<exists>r. build_results (database_world []) (Some ''JV-20250101120000'') JNull
          [''312'', ''335'', ''175'']
          [example_row ''EMP1000'' (Num 82), example_row ''EMP1001'' (Num 61)] = Inr r \<and>
       (\<forall>row \<in> set (talent_df r). \<not> is_benchmark row) \<and>
       benchmark_avg (analytics r) = Num 0"
proof -
  have hyp: "[example_row ''EMP1000'' (Num 82), example_row ''EMP1001'' (Num 61)] \<noteq> [] \<and>
      (\<forall>c \<in> set [example_row ''EMP1000'' (Num 82), example_row ''EMP1001'' (Num 61)].
         employee_id c \<notin> set [''312'', ''335'', ''175''])"
    by (simp add: example_row_def)
  from no_benchmark_match_proceeds
    [of "database_world []" example_form configured_session
      "[example_row ''EMP1000'' (Num 82), example_row ''EMP1001'' (Num 61)]"
      "[''312'', ''335'', ''175'']" "Some ''JV-20250101120000''" JNull] hyp
  show ?thesis
    by blast
qed

text \<open>
  The claim as stated fails: with the database returning the candidates EMP1000 and EMP1001
  and the form asking for the benchmarks 312, 335 and 175, the run stores its results, with no
  row flagged and a benchmark average of 0.
\<close>

theorem no_benchmark_match_counterexample:
  "list_all (\<lambda>c. employee_id c \<notin> set (benchmark_list (benchmark_ids example_form)))
     [example_row ''EMP1000'' (Num 82), example_row ''EMP1001'' (Num 61)] \<and>
   (case fst (generate_clicked
        (database_world [example_row ''EMP1000'' (Num 82), example_row ''EMP1001'' (Num 61)])
        example_form configured_session) of
      Inl e \<Rightarrow> False
    | Inr ss' \<Rightarrow>
        (case results ss' of
           None \<Rightarrow> False
         | Some r \<Rightarrow>
             stored_benchmark_ids r = [''312'', ''335'', ''175''] \<and>
             map is_benchmark (talent_df r) = [False, False] \<and>
             benchmark_avg (analytics r) = Num 0))"
  by code_simp

text \<open>
  C7 (as amended). The five bucket counts of the distribution chart add up to the number of
  candidates whose final match rate is a number: such a rate falls into exactly one range, and
  a rate that is not a number falls into none. So the counts add up to the number of candidates
  exactly when every rate is a number.
\<close>

theorem distribution_counts_sum:
  "sum_list (distribution_counts match_rates) = length [r \<leftarrow> match_rates. r \<noteq> NaN]"
proof (induction match_rates)
  case Nil
  show ?case by (simp add: distribution_counts_def)
next
  case (Cons r rs)
  then show ?case
    by (cases r) (auto simp: distribution_counts_def fge_def)
qed

text \<open>
  The claim as stated fails: of two candidates with the rates 95.0 and not-a-number (a
  missing rate in the reply of the database) only the first is counted.
\<close>

theorem distribution_counts_nan_counterexample:
  "distribution_counts [Num 95, NaN] = [1, 0, 0, 0, 0] \<and>
   sum_list (distribution_counts [Num 95, NaN]) \<noteq> length [Num 95, NaN]"
  by (simp add: distribution_counts_def fge_def)

text \<open>
  C8 (as amended). \<open>AggregateVariable\<close> gives exactly 100 for two equal scores in
  \<open>[0, 100]\<close>, also when both are zero, and \<open>InvalidScoreError\<close> as soon as one score is
  outside \<open>[0, 100]\<close>. For scores in \<open>[0, 100]\<close> with a positive baseline, multiplying both
  scores by the same positive constant, the products still in \<open>[0, 100]\<close>, changes the rate
  by at most \<^verbatim>\<open>1e-12\<close>: in floating point the invariance holds up to rounding, not
  exactly. For a zero baseline with another candidate score the specification defines no
  rate.
\<close>

theorem AggregateVariable_properties:
  "(valid_score s \<longrightarrow> AggregateVariable z s s = Inr (Num 100)) \<and>
   (\<not> valid_score x \<or> \<not> valid_score y \<longrightarrow> AggregateVariable z x y = Inl InvalidScoreError) \<and>
   (0 \<le> c \<and> c \<le> 100 \<and> 0 < b \<and> b \<le> 100 \<and> 0 < k \<and> k * c \<le> 100 \<and> k * b \<le> 100 \<longrightarrow>
      (\<exists>r1 r2.
         AggregateVariable z (Num (k * c)) (Num (k * b)) = Inr (Num r1) \<and>
         AggregateVariable z (Num c) (Num b) = Inr (Num r2) \<and>
         \<bar>r1 - r2\<bar> \<le> 1 / 10 ^ 12))"
proof -
  have same: "AggregateVariable z s s = Inr (Num 100)" if "valid_score s"
    using that by (cases s) (simp_all add: AggregateVariable_def valid_score_def)
  have invalid: "AggregateVariable z x y = Inl InvalidScoreError"
    if "\<not> valid_score x \<or> \<not> valid_score y"
    using that by (auto simp: AggregateVariable_def)
  have scale: "\<exists>r1 r2.
      AggregateVariable z (Num (k * c)) (Num (k * b)) = Inr (Num r1) \<and>
      AggregateVariable z (Num c) (Num b) = Inr (Num r2) \<and>
      \<bar>r1 - r2\<bar> \<le> 1 / 10 ^ 12"
    if range: "0 \<le> c" "c \<le> 100" "0 < b" "b \<le> 100" "k * c \<le> 100" "k * b \<le> 100"
      and k: "0 < k"
  proof -
    obtain r2 where r2: "AggregateVariable z (Num c) (Num b) = Inr (Num r2)"
        "\<bar>r2 - (100 - min 100 (\<bar>c - b\<bar> / b * 100))\<bar> \<le> 1 / (2 * 10 ^ 12)"
      using AggregateVariable_close [OF range(1-4), of z] by blast
    have "0 \<le> k * c" "0 < k * b"
      using k range(1,3) by simp_all
    then obtain r1 where r1: "AggregateVariable z (Num (k * c)) (Num (k * b)) = Inr (Num r1)"
        "\<bar>r1 - (100 - min 100 (\<bar>k * c - k * b\<bar> / (k * b) * 100))\<bar> \<le> 1 / (2 * 10 ^ 12)"
      using AggregateVariable_close [of "k * c" "k * b" z] range(5,6) by blast
    have "\<bar>k * c - k * b\<bar> = k * \<bar>c - b\<bar>"
      using k by (simp add: abs_mult flip: right_diff_distrib)
    then have "\<bar>k * c - k * b\<bar> / (k * b) = \<bar>c - b\<bar> / b"
      using k by simp
    with r1(2) have "\<bar>r1 - (100 - min 100 (\<bar>c - b\<bar> / b * 100))\<bar> \<le> 1 / (2 * 10 ^ 12)"
      by (simp only:)
    with r2(2) have "\<bar>r1 - r2\<bar> \<le> 1 / (2 * 10 ^ 12) + 1 / (2 * 10 ^ 12)"
      by linarith
    then have "\<bar>r1 - r2\<bar> \<le> 1 / 10 ^ 12"
      by simp
    with r1(1) r2(1) show ?thesis
      by blast
  qed
  from same invalid scale show ?thesis
    by blast
qed

text \<open>
  The theorem at two zero scores, at the score 101, and at the scores 40 and 50 scaled by 2.
\<close>

theorem AggregateVariable_properties_witness:
  "AggregateVariable (\<lambda>c. Inr NaN) (Num 0) (Num 0) = Inr (Num 100) \<and>
   AggregateVariable (\<lambda>c. Inr NaN) (Num 101) (Num 50) = Inl InvalidScoreError \<and>
   (\<exists>r1 r2.
      AggregateVariable (\<lambda>c. Inr NaN) (Num (2 * 40)) (Num (2 * 50)) = Inr (Num r1) \<and>
      AggregateVariable (\<lambda>c. Inr NaN) (Num 40) (Num 50) = Inr (Num r2) \<and>
      \<bar>r1 - r2\<bar> \<le> 1 / 10 ^ 12)"
proof -
  have zero: "valid_score (Num 0)"
    by (simp add: valid_score_def)
  have out: "\<not> valid_score (Num 101) \<or> \<not> valid_score (Num 50)"
    by (simp add: valid_score_def)
  have range: "(0::rat) \<le> 40 \<and> (40::rat) \<le> 100 \<and> (0::rat) < 50 \<and> (50::rat) \<le> 100 \<and>
      (0::rat) < 2 \<and> (2::rat) * 40 \<le> 100 \<and> (2::rat) * 50 \<le> 100"
    by simp
  from AggregateVariable_properties
    [of "Num 0" "\<lambda>c. Inr NaN" "Num 101" "Num 50" 40 50 2] zero out range
  show ?thesis
    by blast
qed

text \<open>
  The claim as stated fails: the scores 1 and 4 give the rate 25.0, and the same scores
  multiplied by the float 0.1, which are the floats 0.1 and 0.4, give 24.999999999999986.
\<close>

theorem AggregateVariable_scaling_counterexample:
  "valid_score (Num 1) \<and> valid_score (Num 4) \<and>
   valid_score (Num (to_double (1 / 10) * 1)) \<and> valid_score (Num (to_double (1 / 10) * 4)) \<and>
   AggregateVariable (\<lambda>c. Inr NaN) (Num 1) (Num 4) = Inr (Num 25) \<and>
   AggregateVariable (\<lambda>c. Inr NaN) (Num (to_double (1 / 10) * 1)) (Num (to_double (1 / 10) * 4))
     = Inr (Num (1759218604441599 / 70368744177664)) \<and>
   AggregateVariable (\<lambda>c. Inr NaN) (Num (to_double (1 / 10) * 1)) (Num (to_double (1 / 10) * 4))
     \<noteq> AggregateVariable (\<lambda>c. Inr NaN) (Num 1) (Num 4)"
  by code_simp

text \<open>
  C9. For every triple of role inputs and every behaviour of the network and of the JSON
  decoder, the profile generator returns a value and raises nothing. When the request, the
  indexing of the response or the decoding fails, the value is the fallback profile, which is
  built from the role inputs alone: its requirements are the role name and the job level set
  into a fixed sentence, its description the role name, the role purpose and the job level set
  into another, and its key competencies the same five entries for every role.
\<close>

theorem generate_job_profile_total:
  "(\<exists>profile. fst (generate_job_profile w r l p) = Inr profile) \<and>
   (\<forall>e. request_profile w r l p = Inl e \<longrightarrow>
      fst (generate_job_profile w r l p) = Inr (fallback_profile r l p)) \<and>
   subscript_key (fallback_profile r l p) ''job_requirements'' = Inr (JStr (r @
     '' requires strong technical skills, domain expertise, and proven ability to deliver results at ''
     @ l @
     '' level. Excellent communication, analytical thinking, and stakeholder management capabilities are essential.'')) \<and>
   subscript_key (fallback_profile r l p) ''job_description'' = Inr (JStr (''As a '' @ r @
     '', you will '' @ p @ ''. This '' @ l @
     '' position requires balancing technical depth with business acumen, driving data-informed decisions, and collaborating effectively across teams.'')) \<and>
   (\<exists>comps. subscript_key (fallback_profile r l p) ''key_competencies'' = Inr (JArr comps) \<and>
      comps = [JStr ''Technical Expertise'', JStr ''Analytical Thinking'',
               JStr ''Communication Skills'', JStr ''Problem Solving'',
               JStr ''Stakeholder Management''] \<and>
      length comps = 5)"
  by (auto simp: generate_job_profile_def fallback_profile_def split: sum.splits)

text \<open>
  The theorem in a world where the request is refused.
\<close>

theorem generate_job_profile_total_witness:
  "request_profile (offline_world (\<lambda>n. 0)) ''Data Analyst'' ''Middle'' ''You turn questions into answers.''
     = Inl (LibraryError ''connection refused'') \<and>
   fst (generate_job_profile (offline_world (\<lambda>n. 0)) ''Data Analyst'' ''Middle''
          ''You turn questions into answers.'')
     = Inr (fallback_profile ''Data Analyst'' ''Middle'' ''You turn questions into answers.'')"
proof -
  have fault: "request_profile (offline_world (\<lambda>n. 0)) ''Data Analyst'' ''Middle''
      ''You turn questions into answers.'' = Inl (LibraryError ''connection refused'')"
    by (simp add: request_profile_def offline_world_def)
  with generate_job_profile_total
    [of "offline_world (\<lambda>n. 0)" "''Data Analyst''" "''Middle''" "''You turn questions into answers.''"]
  show ?thesis
    by blast
qed

text \<open>
  C10. When one of the four required inputs is empty as the button is pressed, the session
  state, and with it the stored results, is what it was before, the only message is the error
  asking to fill in the fields, and nothing of the outside world is consulted.
\<close>

theorem required_fields_guard:
  assumes "role_name f = [] \<or> job_level f = [] \<or> role_purpose f = [] \<or> benchmark_ids f = []"
  shows "generate_clicked w f ss =
    (Inr ss, [Msg StError ''Please fill in all required fields!'' None])"
  using assms by (simp add: generate_clicked_def)

text \<open>
  The theorem for the example form with the role name left empty.
\<close>

theorem required_fields_guard_witness:
  "role_name (example_form\<lparr>role_name := []\<rparr>) = [] \<and>
   generate_clicked (database_world [example_row ''EMP1000'' (Num 82)])
       (example_form\<lparr>role_name := []\<rparr>)
       (configured_session\<lparr>results := None\<rparr>) =
     (Inr (configured_session\<lparr>results := None\<rparr>),
      [Msg StError ''Please fill in all required fields!'' None])"
proof -
  have hyp: "role_name (example_form\<lparr>role_name := []\<rparr>) = []"
    by simp
  then have "role_name (example_form\<lparr>role_name := []\<rparr>) = [] \<or>
      job_level (example_form\<lparr>role_name := []\<rparr>) = [] \<or>
      role_purpose (example_form\<lparr>role_name := []\<rparr>) = [] \<or>
      benchmark_ids (example_form\<lparr>role_name := []\<rparr>) = []"
    by simp
  from required_fields_guard [OF this] hyp show ?thesis
    by simp
qed

end
